theory Spec2Isabelle
  imports Complex_Main "HOL-Library.Product_Lexorder"
begin

section \<open>Expense tracker: data model\<close>

text \<open>
  The embedding follows \<^verbatim>\<open>src/main.py\<close>. The three ORM classes become records, the
  three tables become lists of rows in insertion (rowid) order, and every route handler
  becomes a function from its arguments and the store to a result and the store after the
  call. A raised \<^verbatim>\<open>HTTPException\<close> is the \<open>Inl\<close> branch of the result, and so are
  the two failures the code does not raise itself: \<open>RequestValidationError\<close>, with which
  the framework answers 422 when a request body fails its model, and \<open>OverflowError\<close>,
  which the store's driver raises on an integer it cannot hold, which no handler catches,
  and which the framework answers with 500.

  A \<^verbatim>\<open>dt.date\<close> is the triple (year, month, day); Python compares dates in that
  order, which is the lexicographic order on the triple. A \<^verbatim>\<open>float\<close> amount is the
  real number it denotes (NaN and the infinities are left out of the model). Python's
  \<^verbatim>\<open>int\<close> is \<open>int\<close>.
\<close>

type_synonym date = "nat \<times> nat \<times> nat"

datatype error =
    HTTPException (status_code: nat) (detail: string)
  | RequestValidationError
  | OverflowError

record User =
  user_id :: int
  user_email :: string
  user_password_hash :: string
  user_created_at :: nat

record Category =
  cat_id :: int
  cat_name :: string
  cat_owner_id :: int

record Transaction =
  tx_id :: int
  tx_date :: date
  tx_description :: string
  tx_amount :: real
  tx_type :: string
  tx_category_id :: "int option"
  tx_owner_id :: int

record UserCreate =
  uc_email :: string
  uc_password :: string

record CategoryIn =
  ci_name :: string

record TxIn =
  in_date :: date
  in_description :: string
  in_amount :: real
  in_type :: string
  in_category_id :: "int option"

record TxOut =
  out_id :: int
  out_date :: date
  out_description :: string
  out_amount :: real
  out_type :: string
  out_category_id :: "int option"
  out_category_name :: "string option"

record db =
  users :: "User list"
  categories :: "Category list"
  transactions :: "Transaction list"

definition empty_db :: db where
  "empty_db = \<lparr>users = [], categories = [], transactions = []\<rparr>"

section \<open>The persistence service\<close>

text \<open>
  The store holds signed 64-bit integers. \<^verbatim>\<open>db.get(Model, pk)\<close> sends the key to the
  store: a key outside that range makes the driver raise \<^verbatim>\<open>OverflowError\<close>; for a key
  within it the answer is the row with that primary key, or \<^verbatim>\<open>None\<close>.
\<close>

definition in_store_range :: "int \<Rightarrow> bool" where
  "in_store_range k \<longleftrightarrow> - 9223372036854775808 \<le> k \<and> k \<le> 9223372036854775807"

definition db_get :: "('a \<Rightarrow> int) \<Rightarrow> 'a list \<Rightarrow> int \<Rightarrow> error + 'a option" where
  "db_get key rows k =
     (if in_store_range k then Inr (find (\<lambda>r. key r = k) rows) else Inl OverflowError)"

definition get_User :: "db \<Rightarrow> int \<Rightarrow> error + User option" where
  "get_User d uid = db_get user_id (users d) uid"

definition get_Category :: "db \<Rightarrow> int \<Rightarrow> error + Category option" where
  "get_Category d cid = db_get cat_id (categories d) cid"

definition get_Transaction :: "db \<Rightarrow> int \<Rightarrow> error + Transaction option" where
  "get_Transaction d tid = db_get tx_id (transactions d) tid"

text \<open>
  An \<^verbatim>\<open>Integer\<close> primary key is assigned by the store on insert. The default store is
  SQLite, where the column is the rowid: 1 in an empty table, otherwise one more than the
  largest key in the table.
\<close>

definition next_id :: "int list \<Rightarrow> int" where
  "next_id ks = (if ks = [] then 1 else Max (set ks) + 1)"

text \<open>
  The primary keys of a table are unique, and a Category's owner is a row of the users
  table (no route deletes a User). Every route keeps both, see the lemmas \<open>wf_db_*\<close>.
\<close>

definition wf_db :: "db \<Rightarrow> bool" where
  "wf_db d \<longleftrightarrow>
     distinct (map user_id (users d)) \<and>
     distinct (map cat_id (categories d)) \<and>
     distinct (map tx_id (transactions d)) \<and>
     list_all (\<lambda>c. cat_owner_id c \<in> set (map user_id (users d))) (categories d)"

text \<open>
  The relationship \<^verbatim>\<open>Transaction.category\<close> is loaded through the foreign key: it is
  \<^verbatim>\<open>None\<close> when \<^verbatim>\<open>category_id\<close> is NULL or names no row. The key is a value read
  from the store, so this lookup does not raise.
\<close>

definition tx_category :: "db \<Rightarrow> Transaction \<Rightarrow> Category option" where
  "tx_category d t =
     (case tx_category_id t of
        None \<Rightarrow> None
      | Some cid \<Rightarrow> find (\<lambda>c. cat_id c = cid) (categories d))"

text \<open>
  The \<^verbatim>\<open>TxOut(...)\<close> built at the end of the three transaction routes, with
  \<^verbatim>\<open>category_name=(t.category.name if t.category else None)\<close>.
\<close>

definition to_TxOut :: "db \<Rightarrow> Transaction \<Rightarrow> TxOut" where
  "to_TxOut d t =
     \<lparr>out_id = tx_id t, out_date = tx_date t, out_description = tx_description t,
      out_amount = tx_amount t, out_type = tx_type t, out_category_id = tx_category_id t,
      out_category_name = map_option cat_name (tx_category d t)\<rparr>"

section \<open>Authentication\<close>

text \<open>
  \<^verbatim>\<open>get_user_from_token\<close>. The JWT library and Python's \<^verbatim>\<open>int\<close> are parameters:
  \<open>jwt_decode token\<close> is the payload of \<^verbatim>\<open>jwt.decode(token, SECRET_KEY, ...)\<close>, or
  \<open>None\<close> when it raises (malformed token, bad signature, expired); \<open>py_int v\<close> is
  \<^verbatim>\<open>int(v)\<close>, or \<open>None\<close> when it raises. \<^verbatim>\<open>payload.get("sub")\<close> of a payload
  without that key is \<^verbatim>\<open>None\<close>, on which \<^verbatim>\<open>int\<close> raises. Every exception of the
  \<^verbatim>\<open>try\<close> block is caught by \<^verbatim>\<open>except Exception\<close>. The lookup
  \<^verbatim>\<open>db.get(User, uid)\<close> comes after the \<^verbatim>\<open>try\<close> block, so what it raises is not
  caught.
\<close>

definition get_user_from_token ::
  "('tok \<Rightarrow> (string \<rightharpoonup> 'v) option) \<Rightarrow> ('v \<Rightarrow> int option) \<Rightarrow> 'tok \<Rightarrow> db \<Rightarrow> error + User" where
  "get_user_from_token jwt_decode py_int token d =
     (case jwt_decode token of
        None \<Rightarrow> Inl (HTTPException 401 ''Invalid token'')
      | Some payload \<Rightarrow>
          (case payload ''sub'' of
             None \<Rightarrow> Inl (HTTPException 401 ''Invalid token'')
           | Some v \<Rightarrow>
               (case py_int v of
                  None \<Rightarrow> Inl (HTTPException 401 ''Invalid token'')
                | Some uid \<Rightarrow>
                    (case get_User d uid of
                       Inl e \<Rightarrow> Inl e
                     | Inr None \<Rightarrow> Inl (HTTPException 401 ''User not found'')
                     | Inr (Some user) \<Rightarrow> Inr user))))"

section \<open>Registration\<close>

text \<open>
  \<^verbatim>\<open>register\<close>. The password hash and the clock behind \<^verbatim>\<open>created_at\<close> are
  parameters. The email comparison is the store's string equality.
\<close>

definition add_Category :: "string \<Rightarrow> int \<Rightarrow> db \<Rightarrow> db" where
  "add_Category nm owner d =
     d\<lparr>categories := categories d @
        [\<lparr>cat_id = next_id (map cat_id (categories d)), cat_name = nm, cat_owner_id = owner\<rparr>]\<rparr>"

definition register ::
  "(string \<Rightarrow> string) \<Rightarrow> nat \<Rightarrow> UserCreate \<Rightarrow> db \<Rightarrow> (error + User) \<times> db" where
  "register hash_password now user d =
     (case find (\<lambda>u. user_email u = uc_email user) (users d) of
        Some _ \<Rightarrow> (Inl (HTTPException 400 ''Email already registered''), d)
      | None \<Rightarrow>
          (let u = \<lparr>user_id = next_id (map user_id (users d)), user_email = uc_email user,
                    user_password_hash = hash_password (uc_password user),
                    user_created_at = now\<rparr>;
               d1 = d\<lparr>users := users d @ [u]\<rparr>;
               d2 = fold (\<lambda>nm. add_Category nm (user_id u)) [''General'', ''Food'', ''Transport''] d1
           in (Inr u, d2)))"

section \<open>Category routes\<close>

definition create_category :: "CategoryIn \<Rightarrow> User \<Rightarrow> db \<Rightarrow> Category \<times> db" where
  "create_category payload current_user d =
     (let c = \<lparr>cat_id = next_id (map cat_id (categories d)), cat_name = ci_name payload,
               cat_owner_id = user_id current_user\<rparr>
      in (c, d\<lparr>categories := categories d @ [c]\<rparr>))"

text \<open>
  \<^verbatim>\<open>c = db.get(Category, category_id)\<close>, then
  \<^verbatim>\<open>if not c or c.owner_id != current_user.id: raise HTTPException(404, ...)\<close>
\<close>

definition update_category ::
  "int \<Rightarrow> CategoryIn \<Rightarrow> User \<Rightarrow> db \<Rightarrow> (error + Category) \<times> db" where
  "update_category category_id payload current_user d =
     (case get_Category d category_id of
        Inl e \<Rightarrow> (Inl e, d)
      | Inr None \<Rightarrow> (Inl (HTTPException 404 ''Category not found''), d)
      | Inr (Some c) \<Rightarrow>
          if cat_owner_id c \<noteq> user_id current_user
          then (Inl (HTTPException 404 ''Category not found''), d)
          else (Inr (c\<lparr>cat_name := ci_name payload\<rparr>),
                d\<lparr>categories :=
                   map (\<lambda>x. if cat_id x = category_id then x\<lparr>cat_name := ci_name payload\<rparr> else x)
                     (categories d)\<rparr>))"

text \<open>
  The body of the update route is declared \<^verbatim>\<open>payload: CategoryIn\<close>, with
  \<^verbatim>\<open>name: str = Field(min_length=1, max_length=100)\<close>: the framework validates it
  before the handler runs and answers 422 without calling the handler when it fails.
\<close>

definition CategoryIn_valid :: "CategoryIn \<Rightarrow> bool" where
  "CategoryIn_valid payload \<longleftrightarrow> 1 \<le> length (ci_name payload) \<and> length (ci_name payload) \<le> 100"

definition put_categories :: "int \<Rightarrow> CategoryIn \<Rightarrow> User \<Rightarrow> db \<Rightarrow> (error + Category) \<times> db" where
  "put_categories category_id payload current_user d =
     (if CategoryIn_valid payload then update_category category_id payload current_user d
      else (Inl RequestValidationError, d))"

text \<open>
  \<^verbatim>\<open>db.delete(c)\<close>: \<^verbatim>\<open>Category.transactions\<close> is a relationship without a delete
  cascade, so the session sets \<^verbatim>\<open>category_id\<close> to NULL on the Transactions that
  reference the Category (as \<^verbatim>\<open>ondelete="SET NULL"\<close> does in the schema) and then
  deletes the Category row. A successful delete answers 204 with no body.
\<close>

definition delete_category :: "int \<Rightarrow> User \<Rightarrow> db \<Rightarrow> (error + unit) \<times> db" where
  "delete_category category_id current_user d =
     (case get_Category d category_id of
        Inl e \<Rightarrow> (Inl e, d)
      | Inr None \<Rightarrow> (Inl (HTTPException 404 ''Category not found''), d)
      | Inr (Some c) \<Rightarrow>
          if cat_owner_id c \<noteq> user_id current_user
          then (Inl (HTTPException 404 ''Category not found''), d)
          else (Inr (),
                d\<lparr>categories := filter (\<lambda>x. cat_id x \<noteq> category_id) (categories d),
                  transactions :=
                    map (\<lambda>t. if tx_category_id t = Some category_id
                              then t\<lparr>tx_category_id := None\<rparr> else t)
                      (transactions d)\<rparr>))"

section \<open>Transaction routes\<close>

text \<open>
  The check both \<^verbatim>\<open>create_transaction\<close> and \<^verbatim>\<open>update_transaction\<close> make:
  \<^verbatim>\<open>
  if payload.category_id:
      cat = db.get(Category, payload.category_id)
      if not cat or cat.owner_id != current_user.id:
          raise HTTPException(status_code=404, detail="Category not found")
  \<close>
  \<open>category_check\<close> is what this block raises, or \<open>None\<close> when it raises nothing. The
  outer \<^verbatim>\<open>if\<close> tests the truth value of an \<^verbatim>\<open>Optional[int]\<close>, which is false
  for \<^verbatim>\<open>None\<close> and for 0.
  The default store does not enforce foreign keys (the code switches no enforcement on), so
  the insert and the update that follow store whatever reference passed this check.
\<close>

fun category_check :: "db \<Rightarrow> User \<Rightarrow> int option \<Rightarrow> error option" where
  "category_check d current_user None = None"
| "category_check d current_user (Some cid) =
     (if cid = 0 then None
      else (case get_Category d cid of
              Inl e \<Rightarrow> Some e
            | Inr None \<Rightarrow> Some (HTTPException 404 ''Category not found'')
            | Inr (Some cat) \<Rightarrow>
                if cat_owner_id cat \<noteq> user_id current_user
                then Some (HTTPException 404 ''Category not found'') else None))"

definition create_transaction :: "TxIn \<Rightarrow> User \<Rightarrow> db \<Rightarrow> (error + TxOut) \<times> db" where
  "create_transaction payload current_user d =
     (case category_check d current_user (in_category_id payload) of
        Some e \<Rightarrow> (Inl e, d)
      | None \<Rightarrow>
        (let tx = \<lparr>tx_id = next_id (map tx_id (transactions d)), tx_date = in_date payload,
                   tx_description = in_description payload, tx_amount = in_amount payload,
                   tx_type = in_type payload, tx_category_id = in_category_id payload,
                   tx_owner_id = user_id current_user\<rparr>;
             d' = d\<lparr>transactions := transactions d @ [tx]\<rparr>
         in (Inr (to_TxOut d' tx), d')))"

definition update_transaction ::
  "int \<Rightarrow> TxIn \<Rightarrow> User \<Rightarrow> db \<Rightarrow> (error + TxOut) \<times> db" where
  "update_transaction tid payload current_user d =
     (case get_Transaction d tid of
        Inl e \<Rightarrow> (Inl e, d)
      | Inr None \<Rightarrow> (Inl (HTTPException 404 ''Transaction not found''), d)
      | Inr (Some tx) \<Rightarrow>
          if tx_owner_id tx \<noteq> user_id current_user
          then (Inl (HTTPException 404 ''Transaction not found''), d)
          else
            (case category_check d current_user (in_category_id payload) of
               Some e \<Rightarrow> (Inl e, d)
             | None \<Rightarrow>
            (let tx' = tx\<lparr>tx_date := in_date payload, tx_description := in_description payload,
                          tx_amount := in_amount payload, tx_type := in_type payload,
                          tx_category_id := in_category_id payload\<rparr>;
                 d' = d\<lparr>transactions :=
                         map (\<lambda>t. if tx_id t = tid then tx' else t) (transactions d)\<rparr>
             in (Inr (to_TxOut d' tx'), d'))))"

text \<open>
  The request body of both routes is declared \<^verbatim>\<open>payload: TxIn\<close>, so the framework
  validates it against the model before the handler runs and answers 422 without
  calling the handler when a field constraint fails: \<^verbatim>\<open>amount: float = Field(gt=0)\<close>
  and \<^verbatim>\<open>type: str = Field(pattern="^(expense|income)$")\<close>. The pattern is matched by
  the validation library's regular expression engine, in which \<^verbatim>\<open>$\<close> is the end of
  the text.
\<close>

definition TxIn_valid :: "TxIn \<Rightarrow> bool" where
  "TxIn_valid payload \<longleftrightarrow>
     0 < in_amount payload \<and> (in_type payload = ''expense'' \<or> in_type payload = ''income'')"

definition post_transactions :: "TxIn \<Rightarrow> User \<Rightarrow> db \<Rightarrow> (error + TxOut) \<times> db" where
  "post_transactions payload current_user d =
     (if TxIn_valid payload then create_transaction payload current_user d
      else (Inl RequestValidationError, d))"

definition put_transactions :: "int \<Rightarrow> TxIn \<Rightarrow> User \<Rightarrow> db \<Rightarrow> (error + TxOut) \<times> db" where
  "put_transactions tid payload current_user d =
     (if TxIn_valid payload then update_transaction tid payload current_user d
      else (Inl RequestValidationError, d))"

section \<open>Listing\<close>

text \<open>
  \<^verbatim>\<open>Transaction.description.ilike(f"%{q}%")\<close>: the store's LIKE on the lower-cased
  operands. In a pattern \<^verbatim>\<open>%\<close> matches any run of characters and \<^verbatim>\<open>_\<close> any one
  character; \<^verbatim>\<open>lower\<close> folds the ASCII letters.
\<close>

definition lower_char :: "char \<Rightarrow> char" where
  "lower_char c =
     (let n = (of_char c :: nat) in if 65 \<le> n \<and> n \<le> 90 then char_of (n + 32) else c)"

fun like :: "string \<Rightarrow> string \<Rightarrow> bool" where
  "like [] s = (s = [])"
| "like (c # p) [] = (c = CHR ''%'' \<and> like p [])"
| "like (c # p) (x # s) =
     (if c = CHR ''%'' then like p (x # s) \<or> like (c # p) s
      else if c = CHR ''_'' then like p s
      else c = x \<and> like p s)"

definition ilike :: "string \<Rightarrow> string \<Rightarrow> bool" where
  "ilike s pat = like (map lower_char pat) (map lower_char s)"

text \<open>
  The optional \<^verbatim>\<open>where\<close> clauses of \<^verbatim>\<open>list_transactions\<close>, each guarded as in
  the source: \<^verbatim>\<open>if q\<close> (false for \<^verbatim>\<open>None\<close> and for the empty string),
  \<^verbatim>\<open>if type in ("expense", "income")\<close>, \<^verbatim>\<open>if category_id\<close> (false for
  \<^verbatim>\<open>None\<close> and for 0), \<^verbatim>\<open>if start\<close> and \<^verbatim>\<open>if end\<close> (a date is always true).
\<close>

fun where_q :: "string option \<Rightarrow> Transaction list \<Rightarrow> Transaction list" where
  "where_q None ts = ts"
| "where_q (Some q) ts =
     (if q = [] then ts
      else filter (\<lambda>t. ilike (tx_description t) (CHR ''%'' # q @ [CHR ''%''])) ts)"

fun where_type :: "string option \<Rightarrow> Transaction list \<Rightarrow> Transaction list" where
  "where_type None ts = ts"
| "where_type (Some ty) ts =
     (if ty = ''expense'' \<or> ty = ''income'' then filter (\<lambda>t. tx_type t = ty) ts else ts)"

fun where_category :: "int option \<Rightarrow> Transaction list \<Rightarrow> Transaction list" where
  "where_category None ts = ts"
| "where_category (Some cid) ts =
     (if cid = 0 then ts else filter (\<lambda>t. tx_category_id t = Some cid) ts)"

fun where_start :: "date option \<Rightarrow> Transaction list \<Rightarrow> Transaction list" where
  "where_start None ts = ts"
| "where_start (Some start) ts = filter (\<lambda>t. start \<le> tx_date t) ts"

fun where_end :: "date option \<Rightarrow> Transaction list \<Rightarrow> Transaction list" where
  "where_end None ts = ts"
| "where_end (Some end) ts = filter (\<lambda>t. tx_date t \<le> end) ts"

text \<open>
  \<^verbatim>\<open>order_by(Transaction.date.desc())\<close>: the store reads the index on the date
  backwards, so among rows of equal date the one inserted last comes first.
  \<^verbatim>\<open>.limit(limit).offset(offset)\<close>: the store skips \<open>offset\<close> rows and returns at most
  \<open>limit\<close> of the rest; SQLite reads a negative limit as no limit and a negative offset
  as 0. The listing is modelled for requests whose integers the store can hold; on any
  other the driver raises and nothing is listed.
\<close>

definition order_by_date_desc :: "Transaction list \<Rightarrow> Transaction list" where
  "order_by_date_desc ts = rev (sort_key tx_date ts)"

definition limit_offset :: "int \<Rightarrow> int \<Rightarrow> 'a list \<Rightarrow> 'a list" where
  "limit_offset limit offset xs =
     (let ys = drop (nat offset) xs in if limit < 0 then ys else take (nat limit) ys)"

definition list_transactions ::
  "User \<Rightarrow> db \<Rightarrow> string option \<Rightarrow> string option \<Rightarrow> int option \<Rightarrow> date option \<Rightarrow> date option
     \<Rightarrow> int \<Rightarrow> int \<Rightarrow> TxOut list" where
  "list_transactions current_user d q type category_id start end limit offset =
     (let stmt = filter (\<lambda>t. tx_owner_id t = user_id current_user) (transactions d);
          stmt = where_q q stmt;
          stmt = where_type type stmt;
          stmt = where_category category_id stmt;
          stmt = where_start start stmt;
          stmt = where_end end stmt;
          txs = limit_offset limit offset (order_by_date_desc stmt)
      in map (to_TxOut d) txs)"

text \<open>
  The rows the statement of \<^verbatim>\<open>list_transactions\<close> selects, before they are ordered and
  paged: the principal's Transactions that pass every \<^verbatim>\<open>where\<close> clause.
\<close>

definition selected ::
  "User \<Rightarrow> db \<Rightarrow> string option \<Rightarrow> string option \<Rightarrow> int option \<Rightarrow> date option \<Rightarrow> date option
     \<Rightarrow> Transaction list" where
  "selected P d q ty cid s e =
     where_end e (where_start s (where_category cid (where_type ty (where_q q
       (filter (\<lambda>t. tx_owner_id t = user_id P) (transactions d))))))"

section \<open>Example data\<close>

text \<open>
  A store with two users, one Category each, three Transactions of the first user and
  one of the second; and the stand-ins used for the JWT library where a concrete token is
  needed: the token \<open>''good''\<close> carries the subject 1, \<open>''stale''\<close> the subject 9
  (no such user), \<open>''huge''\<close> the subject \<open>2 ^ 63\<close>, and every other token fails to
  decode.
\<close>

definition alice :: User where
  "alice = \<lparr>user_id = 1, user_email = ''alice@example.org'', user_password_hash = ''h1'',
            user_created_at = 0\<rparr>"

definition bob :: User where
  "bob = \<lparr>user_id = 2, user_email = ''bob@example.org'', user_password_hash = ''h2'',
          user_created_at = 0\<rparr>"

definition lunch :: Transaction where
  "lunch = \<lparr>tx_id = 1, tx_date = (2024, 1, 1), tx_description = ''Lunch'', tx_amount = 12,
            tx_type = ''expense'', tx_category_id = Some 1, tx_owner_id = 1\<rparr>"

definition salary :: Transaction where
  "salary = \<lparr>tx_id = 2, tx_date = (2024, 1, 31), tx_description = ''Salary'',
             tx_amount = 1000, tx_type = ''income'', tx_category_id = None, tx_owner_id = 1\<rparr>"

definition flat :: Transaction where
  "flat = \<lparr>tx_id = 3, tx_date = (2024, 2, 1), tx_description = ''Flat'', tx_amount = 700,
           tx_type = ''expense'', tx_category_id = Some 2, tx_owner_id = 2\<rparr>"

definition bus :: Transaction where
  "bus = \<lparr>tx_id = 4, tx_date = (2024, 1, 15), tx_description = ''Bus'', tx_amount = 2,
          tx_type = ''expense'', tx_category_id = Some 1, tx_owner_id = 1\<rparr>"

definition db1 :: db where
  "db1 = \<lparr>users = [alice, bob],
          categories = [\<lparr>cat_id = 1, cat_name = ''General'', cat_owner_id = 1\<rparr>,
                        \<lparr>cat_id = 2, cat_name = ''Rent'', cat_owner_id = 2\<rparr>],
          transactions = [lunch, salary, flat, bus]\<rparr>"

definition carol :: User where
  "carol = \<lparr>user_id = 3, user_email = ''carol@example.org'',
            user_password_hash = ''hash:pw'', user_created_at = 7\<rparr>"

definition coffee :: "int option \<Rightarrow> TxIn" where
  "coffee cid = \<lparr>in_date = (2024, 3, 1), in_description = ''Coffee'', in_amount = 3,
                 in_type = ''expense'', in_category_id = cid\<rparr>"

text \<open>
  The body \<open>coffee (Some 1)\<close> posted by the first user, as it is stored and returned.
\<close>

definition coffee_tx :: Transaction where
  "coffee_tx = \<lparr>tx_id = 5, tx_date = (2024, 3, 1), tx_description = ''Coffee'', tx_amount = 3,
     tx_type = ''expense'', tx_category_id = Some 1, tx_owner_id = 1\<rparr>"

definition coffee_out :: TxOut where
  "coffee_out = \<lparr>out_id = 5, out_date = (2024, 3, 1), out_description = ''Coffee'',
     out_amount = 3, out_type = ''expense'', out_category_id = Some 1,
     out_category_name = Some ''General''\<rparr>"

definition example_decode :: "string \<Rightarrow> (string \<rightharpoonup> string) option" where
  "example_decode token =
     (if token = ''good'' then Some [''sub'' \<mapsto> ''1'']
      else if token = ''stale'' then Some [''sub'' \<mapsto> ''9'']
      else if token = ''huge'' then Some [''sub'' \<mapsto> ''9223372036854775808'']
      else None)"

definition example_int :: "string \<Rightarrow> int option" where
  "example_int v =
     (if v = ''1'' then Some 1
      else if v = ''9'' then Some 9
      else if v = ''9223372036854775808'' then Some 9223372036854775808
      else None)"

definition example_hash :: "string \<Rightarrow> string" where
  "example_hash pw = ''hash:'' @ pw"

section \<open>Lookups and fresh keys\<close>

lemma next_id_fresh: "next_id ks \<notin> set ks"
proof (cases "ks = []")
  case True
  then show ?thesis by simp
next
  case False
  have "k < next_id ks" if "k \<in> set ks" for k
  proof -
    have "k \<le> Max (set ks)" using that by simp
    then show ?thesis using False by (simp add: next_id_def)
  qed
  then show ?thesis by blast
qed

lemma find_key_Some:
  "find (\<lambda>x. f x = k) xs = Some y \<Longrightarrow> y \<in> set xs \<and> f y = k"
  by (induction xs) (auto split: if_splits)

lemma find_key_None:
  "find (\<lambda>x. f x = k) xs = None \<longleftrightarrow> k \<notin> f ` set xs"
  by (induction xs) auto

lemma db_get_cases:
  obtains (overflow) "\<not> in_store_range k" "db_get key rows k = Inl OverflowError"
  | (absent) "in_store_range k" "db_get key rows k = Inr None" "k \<notin> key ` set rows"
  | (found) r where "in_store_range k" "db_get key rows k = Inr (Some r)"
      "r \<in> set rows" "key r = k"
proof (cases "in_store_range k")
  case False
  then show ?thesis by (intro overflow) (simp_all add: db_get_def)
next
  case True
  show ?thesis
  proof (cases "find (\<lambda>r. key r = k) rows")
    case None
    with True show ?thesis by (intro absent) (simp_all add: db_get_def find_key_None)
  next
    case (Some r)
    with True find_key_Some [OF Some] show ?thesis
      by (intro found [of r]) (simp_all add: db_get_def)
  qed
qed

lemma in_store_range_small:
  "in_store_range 0" "in_store_range 1" "in_store_range 2" "in_store_range 3"
  "in_store_range 7" "in_store_range 9" "\<not> in_store_range 9223372036854775808"
  by (simp_all add: in_store_range_def)

section \<open>The example store, evaluated\<close>



lemma create_coffee:
  "create_transaction (coffee (Some 1)) alice db1 =
     (Inr coffee_out, db1\<lparr>transactions := [lunch, salary, flat, bus, coffee_tx]\<rparr>)"
  by (simp add: create_transaction_def get_Category_def db_get_def in_store_range_small
      to_TxOut_def tx_category_def next_id_def Let_def coffee_def coffee_out_def coffee_tx_def
      db1_def alice_def lunch_def salary_def flat_def bus_def)

section \<open>Ownership checks of the category routes\<close>

text \<open>
  C1, as the code has it. For a category id the store can hold (signed 64-bit): if no
  Category with that id is owned by the principal (there is none with that id, or it
  belongs to someone else), the update route with a valid body (a name of 1 to 100
  characters) and the delete route both answer 404 with the same detail and leave the
  store as it was: never 401, never a success, and the same answer in both cases. An
  update whose body is not valid is answered with the validation failure, before any
  lookup.
\<close>

theorem category_not_owned_is_404:
  assumes "in_store_range cid"
    and "\<not> (\<exists>c \<in> set (categories d). cat_id c = cid \<and> cat_owner_id c = user_id P)"
  shows "(CategoryIn_valid payload \<longrightarrow>
            put_categories cid payload P d = (Inl (HTTPException 404 ''Category not found''), d)) \<and>
         (\<not> CategoryIn_valid payload \<longrightarrow>
            put_categories cid payload P d = (Inl RequestValidationError, d)) \<and>
         delete_category cid P d = (Inl (HTTPException 404 ''Category not found''), d)"
proof (cases rule: db_get_cases [of cid cat_id "categories d"])
  case overflow
  with assms(1) show ?thesis by simp
next
  case absent
  then show ?thesis
    by (simp add: put_categories_def update_category_def delete_category_def get_Category_def)
next
  case (found c)
  with assms(2) have "cat_owner_id c \<noteq> user_id P" by blast
  with found show ?thesis
    by (simp add: put_categories_def update_category_def delete_category_def get_Category_def)
qed

theorem category_not_owned_is_404_witness:
  "put_categories 2 \<lparr>ci_name = ''Mine''\<rparr> alice db1 =
     (Inl (HTTPException 404 ''Category not found''), db1) \<and>
   delete_category 2 alice db1 = (Inl (HTTPException 404 ''Category not found''), db1) \<and>
   put_categories 7 \<lparr>ci_name = ''Mine''\<rparr> alice db1 =
     (Inl (HTTPException 404 ''Category not found''), db1) \<and>
   delete_category 7 alice db1 = (Inl (HTTPException 404 ''Category not found''), db1) \<and>
   put_categories 2 \<lparr>ci_name = []\<rparr> alice db1 = (Inl RequestValidationError, db1)"
  using category_not_owned_is_404 [of 2 db1 alice "\<lparr>ci_name = ''Mine''\<rparr>"]
        category_not_owned_is_404 [of 7 db1 alice "\<lparr>ci_name = ''Mine''\<rparr>"]
        category_not_owned_is_404 [of 2 db1 alice "\<lparr>ci_name = []\<rparr>"]
  by (simp add: db1_def alice_def in_store_range_small CategoryIn_valid_def)

text \<open>
  As first stated, C1 asks for 404 on every category id. The id \<open>2 ^ 63\<close> is the id of no
  Category, and the lookup raises \<open>OverflowError\<close> in both routes; and an update of the
  second user's Category by the first user with an empty name is answered with the
  validation failure.
\<close>

theorem category_not_owned_is_404_counterexample:
  "9223372036854775808 \<notin> set (map cat_id (categories db1)) \<and>
   put_categories 9223372036854775808 \<lparr>ci_name = ''Mine''\<rparr> alice db1 =
     (Inl OverflowError, db1) \<and>
   delete_category 9223372036854775808 alice db1 = (Inl OverflowError, db1) \<and>
   map cat_owner_id (filter (\<lambda>c. cat_id c = 2) (categories db1)) = [user_id bob] \<and>
   user_id bob \<noteq> user_id alice \<and>
   put_categories 2 \<lparr>ci_name = []\<rparr> alice db1 = (Inl RequestValidationError, db1)"
  by (simp add: put_categories_def update_category_def delete_category_def get_Category_def
      db_get_def in_store_range_small CategoryIn_valid_def db1_def alice_def bob_def)

lemma next_id_fresh_row: "x \<in> set xs \<Longrightarrow> f x \<noteq> next_id (map f xs)"
proof
  assume "x \<in> set xs" and "f x = next_id (map f xs)"
  then have "next_id (map f xs) \<in> set (map f xs)" by force
  then show False using next_id_fresh by blast
qed

section \<open>The store invariant\<close>

text \<open>
  \<open>wf_db\<close> holds of the empty store and every route keeps it, so it holds of every
  store the routes can produce.
\<close>

lemma distinct_snoc_next_id:
  "distinct (map f xs) \<Longrightarrow> f x = next_id (map f xs) \<Longrightarrow> distinct (map f (xs @ [x]))"
  using next_id_fresh [of "map f xs"] by simp

lemma distinct_map_same_key:
  "distinct (map f xs) \<Longrightarrow> (\<And>x. f (g x) = f x) \<Longrightarrow> distinct (map f (map g xs))"
  by (simp add: comp_def)

lemma wf_db_empty: "wf_db empty_db"
  by (simp add: wf_db_def empty_db_def)

lemma wf_db_add_Category:
  assumes "wf_db d" and "owner \<in> set (map user_id (users d))"
  shows "wf_db (add_Category nm owner d)"
  using assms next_id_fresh [of "map cat_id (categories d)"]
  by (simp add: wf_db_def add_Category_def)

lemma wf_db_create_category:
  assumes "wf_db d" and "user_id P \<in> set (map user_id (users d))"
  shows "wf_db (snd (create_category payload P d))"
  using assms next_id_fresh [of "map cat_id (categories d)"]
  by (simp add: wf_db_def create_category_def Let_def)

lemma wf_db_update_category: "wf_db d \<Longrightarrow> wf_db (snd (update_category cid payload P d))"
  by (auto simp: wf_db_def update_category_def comp_def list_all_iff if_distrib [of cat_id]
      if_distrib [of cat_owner_id] cong: if_cong split: option.splits sum.splits)

lemma wf_db_delete_category: "wf_db d \<Longrightarrow> wf_db (snd (delete_category cid P d))"
  by (auto simp: wf_db_def delete_category_def comp_def list_all_iff distinct_map_filter
      if_distrib [of tx_id] cong: if_cong split: option.splits sum.splits)

lemma wf_db_create_transaction: "wf_db d \<Longrightarrow> wf_db (snd (create_transaction payload P d))"
  using next_id_fresh [of "map tx_id (transactions d)"]
  by (simp add: wf_db_def create_transaction_def Let_def split: option.splits)

lemma wf_db_update_transaction:
  assumes "wf_db d"
  shows "wf_db (snd (update_transaction tid payload P d))"
proof (cases rule: db_get_cases [of tid tx_id "transactions d"])
  case overflow
  with assms show ?thesis by (simp add: update_transaction_def get_Transaction_def)
next
  case absent
  with assms show ?thesis by (simp add: update_transaction_def get_Transaction_def)
next
  case (found tx)
  then have "map tx_id (map (\<lambda>t. if tx_id t = tid then tx\<lparr>tx_date := a, tx_description := b,
      tx_amount := c, tx_type := e, tx_category_id := f\<rparr> else t) (transactions d))
      = map tx_id (transactions d)" for a b c e f
    by (induction "transactions d") (auto simp: comp_def)
  with assms found show ?thesis
    by (simp add: wf_db_def update_transaction_def get_Transaction_def Let_def
        split: option.splits del: map_map)
qed

lemma wf_db_register:
  assumes "wf_db d"
  shows "wf_db (snd (register hash_password now user d))"
proof (cases "find (\<lambda>u. user_email u = uc_email user) (users d)")
  case (Some a)
  with assms show ?thesis by (simp add: register_def)
next
  case None
  define uid where "uid = next_id (map user_id (users d))"
  define d1 where "d1 = d\<lparr>users := users d @ [\<lparr>user_id = uid, user_email = uc_email user,
     user_password_hash = hash_password (uc_password user), user_created_at = now\<rparr>]\<rparr>"
  have "uid \<notin> set (map user_id (users d))" unfolding uid_def by (rule next_id_fresh)
  with assms have w1: "wf_db d1" by (auto simp: wf_db_def d1_def list_all_iff)
  have in1: "uid \<in> set (map user_id (users (add_Category nm uid x)))"
    if "uid \<in> set (map user_id (users x))" for nm x
    using that by (simp add: add_Category_def)
  have u1: "uid \<in> set (map user_id (users d1))" by (simp add: d1_def)
  have "wf_db (add_Category ''Transport'' uid (add_Category ''Food'' uid
          (add_Category ''General'' uid d1)))"
    by (intro wf_db_add_Category in1 w1 u1)
  with None show ?thesis by (simp add: register_def Let_def uid_def d1_def)
qed

lemma wf_db1: "wf_db db1"
  by (simp add: wf_db_def db1_def alice_def bob_def lunch_def salary_def flat_def bus_def)

section \<open>Deleting a Category\<close>

text \<open>
  C3. A successful \<open>delete_category\<close> of a Category owned by the principal removes
  that Category and nothing else from the categories table, and keeps every Transaction:
  the transactions table has the same length, and row by row a Transaction that referenced
  the Category is the old row with \<open>tx_category_id\<close> set to \<open>None\<close>, every other row is
  unchanged. No Transaction is deleted.
\<close>

theorem delete_category_detaches_transactions:
  assumes "delete_category cid P d = (Inr (), d')"
  shows "(\<exists>c \<in> set (categories d). cat_id c = cid \<and> cat_owner_id c = user_id P) \<and>
         get_Category d' cid = Inr None \<and>
         categories d' = filter (\<lambda>c. cat_id c \<noteq> cid) (categories d) \<and>
         users d' = users d \<and>
         length (transactions d') = length (transactions d) \<and>
         (\<forall>i < length (transactions d).
            transactions d' ! i =
              (if tx_category_id (transactions d ! i) = Some cid
               then (transactions d ! i)\<lparr>tx_category_id := None\<rparr>
               else transactions d ! i))"
proof (cases rule: db_get_cases [of cid cat_id "categories d"])
  case overflow
  with assms show ?thesis by (simp add: delete_category_def get_Category_def)
next
  case absent
  with assms show ?thesis by (simp add: delete_category_def get_Category_def)
next
  case (found c)
  from assms found have own: "cat_owner_id c = user_id P"
    by (auto simp: delete_category_def get_Category_def split: if_splits)
  from assms found own have d':
    "d' = d\<lparr>categories := filter (\<lambda>x. cat_id x \<noteq> cid) (categories d),
            transactions := map (\<lambda>t. if tx_category_id t = Some cid
                                       then t\<lparr>tx_category_id := None\<rparr> else t) (transactions d)\<rparr>"
    by (simp add: delete_category_def get_Category_def)
  have gone: "get_Category d' cid = Inr None"
    using found(1) by (auto simp: get_Category_def db_get_def find_key_None d')
  from found own gone show ?thesis by (auto simp: d')
qed

theorem delete_category_detaches_transactions_witness:
  "delete_category 1 alice db1 =
     (Inr (), db1\<lparr>categories := [\<lparr>cat_id = 2, cat_name = ''Rent'', cat_owner_id = 2\<rparr>],
                  transactions := [lunch\<lparr>tx_category_id := None\<rparr>, salary, flat, bus\<lparr>tx_category_id := None\<rparr>]\<rparr>) \<and>
   transactions (snd (delete_category 1 alice db1)) ! 3 = bus\<lparr>tx_category_id := None\<rparr>"
proof -
  have e: "delete_category 1 alice db1 =
     (Inr (), db1\<lparr>categories := [\<lparr>cat_id = 2, cat_name = ''Rent'', cat_owner_id = 2\<rparr>],
                  transactions := [lunch\<lparr>tx_category_id := None\<rparr>, salary, flat, bus\<lparr>tx_category_id := None\<rparr>]\<rparr>)"
    by (simp add: delete_category_def get_Category_def db_get_def in_store_range_small
        db1_def alice_def lunch_def salary_def flat_def bus_def)
  from delete_category_detaches_transactions [OF e] e show ?thesis
    by (simp add: db1_def bus_def)
qed

section \<open>Registration seeds three Categories\<close>

text \<open>
  C4. A successful \<open>register\<close> on a well-formed store appends the new user and exactly
  three Categories, all owned by the new user; the Categories of that user are then named
  General, Food and Transport, in this order; the categories table is otherwise the old
  one and the transactions table is unchanged.
\<close>

theorem register_seeds_default_categories:
  assumes "register hash_password now user d = (Inr u, d')" and "wf_db d"
  shows "map cat_name (filter (\<lambda>c. cat_owner_id c = user_id u) (categories d')) =
           [''General'', ''Food'', ''Transport''] \<and>
         (\<exists>c1 c2 c3. categories d' = categories d @ [c1, c2, c3] \<and>
            cat_name c1 = ''General'' \<and> cat_name c2 = ''Food'' \<and> cat_name c3 = ''Transport'' \<and>
            cat_owner_id c1 = user_id u \<and> cat_owner_id c2 = user_id u \<and>
            cat_owner_id c3 = user_id u) \<and>
         transactions d' = transactions d \<and>
         users d' = users d @ [u] \<and>
         user_id u \<notin> set (map user_id (users d))"
proof -
  define uid where "uid = next_id (map user_id (users d))"
  define u0 where "u0 = \<lparr>user_id = uid, user_email = uc_email user,
     user_password_hash = hash_password (uc_password user), user_created_at = now\<rparr>"
  define d1 where "d1 = d\<lparr>users := users d @ [u0]\<rparr>"
  define d2 where "d2 = add_Category ''General'' uid d1"
  define d3 where "d3 = add_Category ''Food'' uid d2"
  define d4 where "d4 = add_Category ''Transport'' uid d3"
  from assms(1) have u: "u = u0" and d': "d' = d4"
    by (auto simp: register_def Let_def u0_def uid_def d1_def d2_def d3_def d4_def
        split: option.splits)
  have fresh: "uid \<notin> set (map user_id (users d))"
    unfolding uid_def by (rule next_id_fresh)
  have old: "filter (\<lambda>c. cat_owner_id c = uid) (categories d) = []"
    using assms(2) fresh by (auto simp: wf_db_def list_all_iff filter_empty_conv)
  have cats: "\<exists>c1 c2 c3. categories d4 = categories d @ [c1, c2, c3] \<and>
      cat_name c1 = ''General'' \<and> cat_name c2 = ''Food'' \<and> cat_name c3 = ''Transport'' \<and>
      cat_owner_id c1 = uid \<and> cat_owner_id c2 = uid \<and> cat_owner_id c3 = uid"
    by (simp add: d4_def d3_def d2_def d1_def add_Category_def)
  then obtain c1 c2 c3 where c: "categories d4 = categories d @ [c1, c2, c3]"
      "cat_name c1 = ''General''" "cat_name c2 = ''Food''" "cat_name c3 = ''Transport''"
      "cat_owner_id c1 = uid" "cat_owner_id c2 = uid" "cat_owner_id c3 = uid"
    by blast
  have uu: "user_id u = uid" by (simp add: u u0_def)
  have 1: "map cat_name (filter (\<lambda>c. cat_owner_id c = user_id u) (categories d')) =
           [''General'', ''Food'', ''Transport'']"
    using c old by (simp add: d' uu)
  have 2: "\<exists>c1 c2 c3. categories d' = categories d @ [c1, c2, c3] \<and>
            cat_name c1 = ''General'' \<and> cat_name c2 = ''Food'' \<and> cat_name c3 = ''Transport'' \<and>
            cat_owner_id c1 = user_id u \<and> cat_owner_id c2 = user_id u \<and>
            cat_owner_id c3 = user_id u"
    using c by (auto simp: d' uu)
  have 3: "transactions d' = transactions d" "users d' = users d @ [u]"
    by (simp_all add: d' u d4_def d3_def d2_def d1_def add_Category_def)
  from 1 2 3 fresh uu show ?thesis by simp
qed

theorem register_seeds_default_categories_witness:
  "register example_hash 7 \<lparr>uc_email = ''carol@example.org'', uc_password = ''pw''\<rparr> db1 =
     (Inr carol, db1\<lparr>users := [alice, bob, carol],
        categories := categories db1 @
          [\<lparr>cat_id = 3, cat_name = ''General'', cat_owner_id = 3\<rparr>,
           \<lparr>cat_id = 4, cat_name = ''Food'', cat_owner_id = 3\<rparr>,
           \<lparr>cat_id = 5, cat_name = ''Transport'', cat_owner_id = 3\<rparr>]\<rparr>) \<and>
   wf_db db1 \<and>
   map cat_name (filter (\<lambda>c. cat_owner_id c = 3) (categories (snd
     (register example_hash 7 \<lparr>uc_email = ''carol@example.org'', uc_password = ''pw''\<rparr> db1)))) =
     [''General'', ''Food'', ''Transport'']"
proof -
  have e: "register example_hash 7 \<lparr>uc_email = ''carol@example.org'', uc_password = ''pw''\<rparr> db1 =
     (Inr carol, db1\<lparr>users := [alice, bob, carol],
        categories := categories db1 @
          [\<lparr>cat_id = 3, cat_name = ''General'', cat_owner_id = 3\<rparr>,
           \<lparr>cat_id = 4, cat_name = ''Food'', cat_owner_id = 3\<rparr>,
           \<lparr>cat_id = 5, cat_name = ''Transport'', cat_owner_id = 3\<rparr>]\<rparr>)"
    by (simp add: register_def add_Category_def next_id_def example_hash_def Let_def
        db1_def alice_def bob_def carol_def)
  from register_seeds_default_categories [OF e wf_db1] e wf_db1 show ?thesis
    by (simp add: carol_def)
qed

section \<open>Validation of the transaction body\<close>

text \<open>
  C5. A create or update request whose amount is at most 0 (whatever its kind), or whose
  kind is neither \<open>''expense''\<close> nor \<open>''income''\<close>, is answered with the validation
  failure and the store is unchanged. Equivalently, whenever either route accepts a request,
  the returned Transaction and the stored row with its id have a strictly positive amount
  and a kind that is exactly \<open>''expense''\<close> or \<open>''income''\<close>.
\<close>

theorem invalid_transaction_rejected:
  "((in_amount payload \<le> 0 \<or> (in_type payload \<noteq> ''expense'' \<and> in_type payload \<noteq> ''income'')) \<longrightarrow>
      post_transactions payload P d = (Inl RequestValidationError, d) \<and>
      put_transactions tid payload P d = (Inl RequestValidationError, d)) \<and>
   (\<forall>out d'. post_transactions payload P d = (Inr out, d') \<or>
              put_transactions tid payload P d = (Inr out, d') \<longrightarrow>
      0 < out_amount out \<and> (out_type out = ''expense'' \<or> out_type out = ''income'') \<and>
      (\<forall>t \<in> set (transactions d'). tx_id t = out_id out \<longrightarrow>
         0 < tx_amount t \<and> (tx_type t = ''expense'' \<or> tx_type t = ''income'')))"
proof -
  have rej: "post_transactions payload P d = (Inl RequestValidationError, d) \<and>
      put_transactions tid payload P d = (Inl RequestValidationError, d)"
    if "in_amount payload \<le> 0 \<or> (in_type payload \<noteq> ''expense'' \<and> in_type payload \<noteq> ''income'')"
    using that by (auto simp: post_transactions_def put_transactions_def TxIn_valid_def)
  have post: "0 < out_amount out \<and> (out_type out = ''expense'' \<or> out_type out = ''income'') \<and>
      (\<forall>t \<in> set (transactions d'). tx_id t = out_id out \<longrightarrow>
         0 < tx_amount t \<and> (tx_type t = ''expense'' \<or> tx_type t = ''income''))"
    if "post_transactions payload P d = (Inr out, d')" for out d'
  proof -
    from that have v: "TxIn_valid payload" and c: "create_transaction payload P d = (Inr out, d')"
      by (auto simp: post_transactions_def split: if_splits)
    have fresh: "tx_id t \<noteq> next_id (map tx_id (transactions d))" if "t \<in> set (transactions d)" for t
      using that by (rule next_id_fresh_row)
    from c v fresh show ?thesis
      by (auto simp: create_transaction_def Let_def to_TxOut_def TxIn_valid_def
          split: option.splits)
  qed
  have put: "0 < out_amount out \<and> (out_type out = ''expense'' \<or> out_type out = ''income'') \<and>
      (\<forall>t \<in> set (transactions d'). tx_id t = out_id out \<longrightarrow>
         0 < tx_amount t \<and> (tx_type t = ''expense'' \<or> tx_type t = ''income''))"
    if "put_transactions tid payload P d = (Inr out, d')" for out d'
  proof -
    from that have v: "TxIn_valid payload" and c: "update_transaction tid payload P d = (Inr out, d')"
      by (auto simp: put_transactions_def split: if_splits)
    show ?thesis
    proof (cases rule: db_get_cases [of tid tx_id "transactions d"])
      case overflow
      with c show ?thesis by (simp add: update_transaction_def get_Transaction_def)
    next
      case absent
      with c show ?thesis by (simp add: update_transaction_def get_Transaction_def)
    next
      case (found tx)
      with c v show ?thesis
        by (auto simp: update_transaction_def get_Transaction_def Let_def to_TxOut_def
            TxIn_valid_def split: if_splits option.splits)
    qed
  qed
  from rej post put show ?thesis by blast
qed

theorem invalid_transaction_rejected_witness:
  "post_transactions ((coffee None)\<lparr>in_amount := 0\<rparr>) alice db1 = (Inl RequestValidationError, db1) \<and>
   put_transactions 1 ((coffee None)\<lparr>in_amount := 0\<rparr>) alice db1 = (Inl RequestValidationError, db1) \<and>
   post_transactions ((coffee None)\<lparr>in_type := ''Expense''\<rparr>) alice db1 = (Inl RequestValidationError, db1) \<and>
   post_transactions (coffee (Some 1)) alice db1 =
     (Inr coffee_out, db1\<lparr>transactions := [lunch, salary, flat, bus, coffee_tx]\<rparr>) \<and>
   0 < out_amount coffee_out"
proof -
  have e: "post_transactions (coffee (Some 1)) alice db1 =
     (Inr coffee_out, db1\<lparr>transactions := [lunch, salary, flat, bus, coffee_tx]\<rparr>)"
    using create_coffee by (simp add: post_transactions_def TxIn_valid_def coffee_def)
  from invalid_transaction_rejected [of "(coffee None)\<lparr>in_amount := 0\<rparr>" alice db1 1]
       invalid_transaction_rejected [of "(coffee None)\<lparr>in_type := ''Expense''\<rparr>" alice db1 1]
       invalid_transaction_rejected [of "coffee (Some 1)" alice db1 1] e
  show ?thesis by (simp add: coffee_def)
qed

section \<open>The category check of the transaction routes\<close>

text \<open>
  C2. The claim asks for 404 whenever the supplied category id names no Category of the
  principal, also for the id 0. The check is guarded by the truth value of the id, so for
  the id 0 it is skipped: in the example store the lookup of the id 0 finds no Category,
  and both \<open>create_transaction\<close> and \<open>update_transaction\<close> succeed and store the
  reference 0.
\<close>

theorem create_transaction_category_zero:
  "get_Category db1 0 = Inr None \<and>
   create_transaction (coffee (Some 0)) alice db1 =
     (Inr \<lparr>out_id = 5, out_date = (2024, 3, 1), out_description = ''Coffee'', out_amount = 3,
           out_type = ''expense'', out_category_id = Some 0, out_category_name = None\<rparr>,
      db1\<lparr>transactions := [lunch, salary, flat, bus,
        \<lparr>tx_id = 5, tx_date = (2024, 3, 1), tx_description = ''Coffee'', tx_amount = 3,
         tx_type = ''expense'', tx_category_id = Some 0, tx_owner_id = 1\<rparr>]\<rparr>) \<and>
   update_transaction 1 (coffee (Some 0)) alice db1 =
     (Inr \<lparr>out_id = 1, out_date = (2024, 3, 1), out_description = ''Coffee'', out_amount = 3,
           out_type = ''expense'', out_category_id = Some 0, out_category_name = None\<rparr>,
      db1\<lparr>transactions := [
        \<lparr>tx_id = 1, tx_date = (2024, 3, 1), tx_description = ''Coffee'', tx_amount = 3,
         tx_type = ''expense'', tx_category_id = Some 0, tx_owner_id = 1\<rparr>, salary, flat, bus]\<rparr>)"
  by (simp add: create_transaction_def update_transaction_def get_Category_def
      get_Transaction_def db_get_def in_store_range_small
      to_TxOut_def tx_category_def next_id_def Let_def db1_def alice_def
      coffee_def lunch_def salary_def flat_def bus_def)

text \<open>
  For every other id the store can hold the check is made: a non-zero id that names no
  Category of the principal is answered with 404 and the store is unchanged.
\<close>

lemma category_check_nonzero:
  assumes "cid \<noteq> 0" and "in_store_range cid"
    and "\<not> (\<exists>c \<in> set (categories d). cat_id c = cid \<and> cat_owner_id c = user_id P)"
    and "in_category_id payload = Some cid"
  shows "create_transaction payload P d = (Inl (HTTPException 404 ''Category not found''), d)"
    and "\<exists>e. update_transaction tid payload P d = (Inl e, d)"
proof -
  have "category_check d P (Some cid) = Some (HTTPException 404 ''Category not found'')"
  proof (cases rule: db_get_cases [of cid cat_id "categories d"])
    case overflow
    with assms(2) show ?thesis by simp
  next
    case absent
    with assms(1) show ?thesis by (simp add: get_Category_def)
  next
    case (found c)
    with assms(3) have "cat_owner_id c \<noteq> user_id P" by blast
    with found assms(1) show ?thesis by (simp add: get_Category_def)
  qed
  with assms(4) show "create_transaction payload P d = (Inl (HTTPException 404 ''Category not found''), d)"
    and "\<exists>e. update_transaction tid payload P d = (Inl e, d)"
    by (auto simp: create_transaction_def update_transaction_def split: option.splits sum.splits)
qed

section \<open>A failed update changes nothing\<close>

text \<open>
  C10. Whenever \<open>update_transaction\<close> fails, the store after the call is the store
  before it, so the targeted Transaction keeps every field; and it does fail, with 404,
  when the lookup finds no Transaction, or one owned by someone else, or the category
  check answers 404.
\<close>

theorem update_transaction_failure_leaves_store:
  "(\<forall>e d'. update_transaction tid payload P d = (Inl e, d') \<longrightarrow> d' = d) \<and>
   ((case get_Transaction d tid of
       Inl e \<Rightarrow> False
     | Inr None \<Rightarrow> True
     | Inr (Some tx) \<Rightarrow> tx_owner_id tx \<noteq> user_id P \<or>
         category_check d P (in_category_id payload) =
           Some (HTTPException 404 ''Category not found''))
    \<longrightarrow> (\<exists>m. update_transaction tid payload P d = (Inl (HTTPException 404 m), d)))"
  by (auto simp: update_transaction_def Let_def split: option.splits if_splits sum.splits)

theorem update_transaction_failure_leaves_store_witness:
  "update_transaction 3 (coffee None) alice db1 =
     (Inl (HTTPException 404 ''Transaction not found''), db1) \<and>
   update_transaction 1 (coffee (Some 2)) alice db1 =
     (Inl (HTTPException 404 ''Category not found''), db1) \<and>
   get_Transaction db1 1 = Inr (Some lunch)"
proof -
  have a: "update_transaction 3 (coffee None) alice db1 =
     (Inl (HTTPException 404 ''Transaction not found''), db1)"
    by (simp add: update_transaction_def get_Transaction_def db_get_def in_store_range_small
        db1_def alice_def lunch_def salary_def flat_def bus_def)
  have b: "update_transaction 1 (coffee (Some 2)) alice db1 =
     (Inl (HTTPException 404 ''Category not found''), db1)"
    by (simp add: update_transaction_def get_Transaction_def get_Category_def db_get_def
        in_store_range_small db1_def alice_def lunch_def coffee_def)
  have c: "get_Transaction db1 1 = Inr (Some lunch)"
    by (simp add: get_Transaction_def db_get_def in_store_range_small db1_def lunch_def)
  from update_transaction_failure_leaves_store [of 3 "coffee None" alice db1]
       update_transaction_failure_leaves_store [of 1 "coffee (Some 2)" alice db1] a b c
  show ?thesis by simp
qed

section \<open>Ordering, paging and the where clauses\<close>

lemma filter_order_by_date_desc:
  "filter Q (order_by_date_desc ts) = order_by_date_desc (filter Q ts)"
  by (simp only: order_by_date_desc_def rev_filter [symmetric] filter_sort)

lemma set_order_by_date_desc: "set (order_by_date_desc ts) = set ts"
  by (simp add: order_by_date_desc_def)

lemma length_order_by_date_desc: "length (order_by_date_desc ts) = length ts"
  by (simp add: order_by_date_desc_def)

lemma order_by_date_desc_single: "order_by_date_desc [t] = [t]"
  by (simp add: order_by_date_desc_def)


lemma set_limit_offset: "set (limit_offset limit offset xs) \<subseteq> set xs"
  by (auto simp: limit_offset_def Let_def dest: in_set_takeD in_set_dropD)


lemma limit_offset_all: "int (length xs) \<le> limit \<Longrightarrow> limit_offset limit 0 xs = xs"
  by (simp add: limit_offset_def)

lemma where_q_filter:
  "where_q q ts = filter (\<lambda>t. case q of None \<Rightarrow> True
      | Some s \<Rightarrow> s = [] \<or> ilike (tx_description t) (CHR ''%'' # s @ [CHR ''%''])) ts"
  by (cases q) auto

lemma where_type_filter:
  "where_type ty ts = filter (\<lambda>t. case ty of None \<Rightarrow> True
      | Some k \<Rightarrow> (k = ''expense'' \<or> k = ''income'') \<longrightarrow> tx_type t = k) ts"
  by (cases ty) auto

lemma where_category_filter:
  "where_category cid ts = filter (\<lambda>t. case cid of None \<Rightarrow> True
      | Some c \<Rightarrow> c = 0 \<or> tx_category_id t = Some c) ts"
  by (cases cid) auto

lemma where_start_filter:
  "where_start s ts = filter (\<lambda>t. case s of None \<Rightarrow> True | Some a \<Rightarrow> a \<le> tx_date t) ts"
  by (cases s) auto

lemma where_end_filter:
  "where_end e ts = filter (\<lambda>t. case e of None \<Rightarrow> True | Some b \<Rightarrow> tx_date t \<le> b) ts"
  by (cases e) auto

lemmas where_filter =
  where_q_filter where_type_filter where_category_filter where_start_filter where_end_filter

lemma selected_owned:
  "t \<in> set (selected P d q ty cid s e) \<Longrightarrow> t \<in> set (transactions d) \<and> tx_owner_id t = user_id P"
  unfolding selected_def where_filter by simp


lemma list_transactions_selected:
  "list_transactions P d q ty cid s e limit offset =
     map (to_TxOut d) (limit_offset limit offset (order_by_date_desc (selected P d q ty cid s e)))"
  by (simp add: list_transactions_def selected_def Let_def)

lemma length_selected:
  "length (selected P d q ty cid s e) \<le>
     length (filter (\<lambda>t. tx_owner_id t = user_id P) (transactions d))"
  unfolding selected_def where_filter
  by (intro order_trans [OF length_filter_le] order_refl)

lemma list_transactions_whole:
  assumes "int (length (filter (\<lambda>t. tx_owner_id t = user_id P) (transactions d))) \<le> limit"
  shows "list_transactions P d q ty cid s e limit 0 =
     map (to_TxOut d) (order_by_date_desc (selected P d q ty cid s e))"
proof -
  have "int (length (order_by_date_desc (selected P d q ty cid s e))) \<le> limit"
    using assms length_selected [of P d q ty cid s e]
    by (simp add: length_order_by_date_desc)
  then show ?thesis by (simp add: list_transactions_selected limit_offset_all)
qed


lemma out_id_to_TxOut: "out_id (to_TxOut d t) = tx_id t"
  by (simp add: to_TxOut_def)


section \<open>Listing by date range\<close>




section \<open>Listing by category and by kind\<close>




section \<open>Create, then read back\<close>

text \<open>
  C9. After a successful \<open>create_transaction\<close> the returned item carries the date,
  description, amount, kind and category reference of the request; its category name is
  \<open>None\<close> when no category was given and the name of the principal's Category when a
  (non-zero) category id was given. Reading it back: in every listing of the new store by
  the principal, whatever the filters and the page, an item with the returned id is the
  returned item; and picking the items with the returned id out of the unfiltered listing
  (offset 0, a limit that covers the principal's Transactions) gives exactly the returned
  item.
\<close>

theorem create_then_list_roundtrip:
  assumes "create_transaction payload P d = (Inr out, d')"
  shows "out_date out = in_date payload \<and> out_description out = in_description payload \<and>
         out_amount out = in_amount payload \<and> out_type out = in_type payload \<and>
         out_category_id out = in_category_id payload \<and>
         (in_category_id payload = None \<longrightarrow> out_category_name out = None) \<and>
         (\<forall>cid. in_category_id payload = Some cid \<and> cid \<noteq> 0 \<longrightarrow>
            (\<exists>c. get_Category d' cid = Inr (Some c) \<and> cat_owner_id c = user_id P \<and>
                 out_category_name out = Some (cat_name c))) \<and>
         (\<forall>x \<in> set (list_transactions P d' q ty cid s e limit offset).
            out_id x = out_id out \<longrightarrow> x = out) \<and>
         (int (length (filter (\<lambda>t. tx_owner_id t = user_id P) (transactions d'))) \<le> limit \<longrightarrow>
            filter (\<lambda>x. out_id x = out_id out)
              (list_transactions P d' None None None None None limit 0) = [out])"
proof -
  define tx where "tx = \<lparr>tx_id = next_id (map tx_id (transactions d)), tx_date = in_date payload,
      tx_description = in_description payload, tx_amount = in_amount payload,
      tx_type = in_type payload, tx_category_id = in_category_id payload,
      tx_owner_id = user_id P\<rparr>"
  from assms(1) have ok: "category_check d P (in_category_id payload) = None"
    and d': "d' = d\<lparr>transactions := transactions d @ [tx]\<rparr>"
    and out: "out = to_TxOut d' tx"
    by (auto simp: create_transaction_def Let_def tx_def split: option.splits)
  have fields: "out_date out = in_date payload \<and> out_description out = in_description payload \<and>
         out_amount out = in_amount payload \<and> out_type out = in_type payload \<and>
         out_category_id out = in_category_id payload"
    by (simp add: out to_TxOut_def tx_def)
  have none: "out_category_name out = None" if "in_category_id payload = None"
    using that by (simp add: out to_TxOut_def tx_category_def tx_def)
  have some: "\<exists>c. get_Category d' cid = Inr (Some c) \<and> cat_owner_id c = user_id P \<and>
                 out_category_name out = Some (cat_name c)"
    if "in_category_id payload = Some cid \<and> cid \<noteq> 0" for cid
  proof -
    from that ok obtain c where c: "get_Category d cid = Inr (Some c)" "cat_owner_id c = user_id P"
      by (auto split: option.splits sum.splits if_splits)
    then have f: "in_store_range cid" "find (\<lambda>x. cat_id x = cid) (categories d) = Some c"
      by (auto simp: get_Category_def db_get_def split: if_splits)
    have "get_Category d' cid = get_Category d cid" by (simp add: d' get_Category_def)
    with c f that show ?thesis by (simp add: out to_TxOut_def tx_category_def tx_def d')
  qed
  have own: "tx_owner_id tx = user_id P" by (simp add: tx_def)
  have fresh: "\<forall>t \<in> set (transactions d). tx_id t \<noteq> tx_id tx"
    by (simp add: tx_def next_id_fresh_row)
  have anywhere: "x = out"
    if x: "x \<in> set (list_transactions P d' q ty cid s e limit offset)" "out_id x = out_id out" for x
  proof -
    from x(1) obtain t where t: "x = to_TxOut d' t"
        "t \<in> set (limit_offset limit offset (order_by_date_desc (selected P d' q ty cid s e)))"
      by (auto simp: list_transactions_selected)
    from t(2) set_limit_offset
    have "t \<in> set (order_by_date_desc (selected P d' q ty cid s e))" by (rule rev_subsetD)
    then have "t \<in> set (selected P d' q ty cid s e)" by (simp only: set_order_by_date_desc)
    then have "t \<in> set (transactions d')" by (simp add: selected_owned)
    moreover have "tx_id t = tx_id tx" using x(2) by (simp add: t(1) out out_id_to_TxOut)
    ultimately have "t = tx" using fresh by (auto simp: d')
    then show ?thesis by (simp add: t(1) out)
  qed
  have readback: "filter (\<lambda>x. out_id x = out_id out)
      (list_transactions P d' None None None None None limit 0) = [out]"
    if n: "int (length (filter (\<lambda>t. tx_owner_id t = user_id P) (transactions d'))) \<le> limit"
  proof -
    have sel: "filter (\<lambda>t. tx_id t = tx_id tx) (selected P d' None None None None None) = [tx]"
      using fresh by (simp add: selected_def d' own filter_empty_conv)
    have "list_transactions P d' None None None None None limit 0 =
        map (to_TxOut d') (order_by_date_desc (selected P d' None None None None None))"
      using n by (rule list_transactions_whole)
    then have "filter (\<lambda>x. out_id x = out_id out)
        (list_transactions P d' None None None None None limit 0) =
        map (to_TxOut d') (order_by_date_desc
          (filter (\<lambda>t. tx_id t = tx_id tx) (selected P d' None None None None None)))"
      by (simp add: filter_map comp_def out out_id_to_TxOut filter_order_by_date_desc)
    then show ?thesis by (simp add: sel order_by_date_desc_single out)
  qed
  from fields none some anywhere readback show ?thesis by blast
qed

theorem create_then_list_roundtrip_witness:
  "create_transaction (coffee (Some 1)) alice db1 =
     (Inr coffee_out, db1\<lparr>transactions := [lunch, salary, flat, bus, coffee_tx]\<rparr>) \<and>
   filter (\<lambda>x. out_id x = 5)
     (list_transactions alice (db1\<lparr>transactions := [lunch, salary, flat, bus, coffee_tx]\<rparr>)
        None None None None None 50 0) = [coffee_out] \<and>
   out_date coffee_out = (2024, 3, 1) \<and> out_description coffee_out = ''Coffee'' \<and>
   out_amount coffee_out = 3 \<and> out_type coffee_out = ''expense'' \<and>
   out_category_id coffee_out = Some 1 \<and> out_category_name coffee_out = Some ''General''"
proof -
  have n: "int (length (filter (\<lambda>t. tx_owner_id t = user_id alice)
      (transactions (db1\<lparr>transactions := [lunch, salary, flat, bus, coffee_tx]\<rparr>)))) \<le> 50"
    by simp
  from create_then_list_roundtrip [OF create_coffee, of None None None None None 50 0]
    create_coffee n
  show ?thesis by (simp add: coffee_out_def coffee_def)
qed

section \<open>Bearer tokens\<close>

text \<open>
  C8, as the code has it. A token that fails to decode (malformed, bad signature, expired),
  or whose payload has no subject that reads as an integer, is answered 401 with the detail
  \<open>''Invalid token''\<close>; a token whose subject is an integer the store can hold (signed
  64-bit) and names no User is answered 401 with the detail \<open>''User not found''\<close>; and
  for a token whose subject, if it has one, is an integer the store can hold, every failure
  of \<open>get_user_from_token\<close> is one of these two, so the status is 401 while the detail
  tells the two cases apart.
\<close>

theorem get_user_from_token_401:
  "(jwt_decode token = None \<longrightarrow>
      get_user_from_token jwt_decode py_int token d = Inl (HTTPException 401 ''Invalid token'')) \<and>
   (\<forall>payload. jwt_decode token = Some payload \<and>
        (case payload ''sub'' of None \<Rightarrow> True | Some v \<Rightarrow> py_int v = None) \<longrightarrow>
      get_user_from_token jwt_decode py_int token d = Inl (HTTPException 401 ''Invalid token'')) \<and>
   (\<forall>payload v uid. jwt_decode token = Some payload \<and> payload ''sub'' = Some v \<and>
        py_int v = Some uid \<and> get_User d uid = Inr None \<longrightarrow>
      get_user_from_token jwt_decode py_int token d = Inl (HTTPException 401 ''User not found'')) \<and>
   ((\<forall>payload v uid. jwt_decode token = Some payload \<and> payload ''sub'' = Some v \<and>
        py_int v = Some uid \<longrightarrow> in_store_range uid) \<longrightarrow>
    (\<forall>e. get_user_from_token jwt_decode py_int token d = Inl e \<longrightarrow>
      e = HTTPException 401 ''Invalid token'' \<or> e = HTTPException 401 ''User not found''))"
  by (auto simp: get_user_from_token_def get_User_def db_get_def
      split: option.splits sum.splits if_splits)

theorem get_user_from_token_401_witness:
  "get_user_from_token example_decode example_int ''garbage'' db1 =
     Inl (HTTPException 401 ''Invalid token'') \<and>
   get_user_from_token example_decode example_int ''stale'' db1 =
     Inl (HTTPException 401 ''User not found'') \<and>
   get_user_from_token example_decode example_int ''good'' db1 = Inr alice"
proof -
  have g: "get_User db1 9 = Inr None" "get_User db1 1 = Inr (Some alice)"
    by (simp_all add: get_User_def db_get_def in_store_range_small db1_def alice_def bob_def)
  have ok: "get_user_from_token example_decode example_int ''good'' db1 = Inr alice"
    by (simp add: get_user_from_token_def example_decode_def example_int_def g)
  from get_user_from_token_401 [of example_decode "''garbage''" example_int db1]
       get_user_from_token_401 [of example_decode "''stale''" example_int db1] g ok
  show ?thesis by (simp add: example_decode_def example_int_def)
qed

text \<open>
  As first stated, C8 asks for 401 whenever the subject resolves to no User, and says the
  caller cannot tell a stale user from a bad token. The subject \<open>2 ^ 63\<close> is the id of no
  User and the lookup, which is outside the \<^verbatim>\<open>try\<close> block, raises
  \<open>OverflowError\<close>; and the answers to a bad token and to a stale user differ in their
  detail.
\<close>

theorem get_user_from_token_401_counterexample:
  "example_decode ''huge'' = Some [''sub'' \<mapsto> ''9223372036854775808''] \<and>
   example_int ''9223372036854775808'' = Some 9223372036854775808 \<and>
   9223372036854775808 \<notin> set (map user_id (users db1)) \<and>
   get_user_from_token example_decode example_int ''huge'' db1 = Inl OverflowError \<and>
   example_decode ''garbage'' = None \<and>
   get_user_from_token example_decode example_int ''garbage'' db1 =
     Inl (HTTPException 401 ''Invalid token'') \<and>
   example_decode ''stale'' = Some [''sub'' \<mapsto> ''9''] \<and> example_int ''9'' = Some 9 \<and>
   9 \<notin> set (map user_id (users db1)) \<and>
   get_user_from_token example_decode example_int ''stale'' db1 =
     Inl (HTTPException 401 ''User not found'')"
  by (simp add: get_user_from_token_def example_decode_def example_int_def get_User_def
      db_get_def in_store_range_small db1_def alice_def bob_def)

end
